theory Spec2Isabelle
  imports Main "HOL-Library.Sublist"
begin

section \<open>pivit: the identity matcher and the signing workflow of pkg/pivit/sign.go\<close>

subsection \<open>Go values: errors, panics, strings\<close>

text \<open>
  A Go \<open>error\<close> is a value; \<open>nil\<close> is \<open>None\<close> of \<open>error option\<close>. The constructors are the
  three ways sign.go builds one with github.com/pkg/errors; \<open>External\<close> stands for an error
  made by a collaborator (smartcard driver, CMS library, operating system).
\<close>

datatype error =
    errors_New string
  | errors_Errorf string
  | errors_Wrap error string
  | External string

text \<open>The cause an error chains to, as \<open>errors.Unwrap\<close> / \<open>errors.Cause\<close> would follow it.\<close>

fun Unwrap :: "error \<Rightarrow> error option" where
  "Unwrap (errors_Wrap err msg) = Some err"
| "Unwrap (errors_New msg) = None"
| "Unwrap (errors_Errorf msg) = None"
| "Unwrap (External msg) = None"

text \<open>
  A run-time panic is not an error value: it unwinds the caller. A Go function that can panic
  returns an \<open>outcome\<close>: what it returns, or the panic.
\<close>

datatype runtime_panic = slice_bounds_out_of_range int int

datatype 'a outcome = Return 'a | Panic runtime_panic

text \<open>
  Go strings are byte sequences, here \<open>string\<close>. \<open>strings.Index s substr\<close> is the byte index of
  the first instance of \<open>substr\<close> in \<open>s\<close>, or \<open>-1\<close>.
\<close>

fun strings_Index :: "string \<Rightarrow> string \<Rightarrow> int" where
  "strings_Index [] substr = (if substr = [] then 0 else - 1)"
| "strings_Index (c # s) substr =
     (if prefix substr (c # s) then 0
      else (let i = strings_Index s substr in if i = - 1 then - 1 else i + 1))"

text \<open>
  The slice expression \<open>s[low:high]\<close>: Go panics unless \<open>0 \<le> low \<le> high \<le> len(s)\<close>.
\<close>

definition slice :: "string \<Rightarrow> int \<Rightarrow> int \<Rightarrow> string outcome" where
  "slice s low high =
     (if 0 \<le> low \<and> low \<le> high \<and> high \<le> int (length s)
      then Return (take (nat (high - low)) (drop (nat low) s))
      else Panic (slice_bounds_out_of_range low high))"

text \<open>\<open>strings.ContainsRune s r\<close> for a rune below \<open>utf8.RuneSelf\<close> is a search for the byte.\<close>

definition strings_ContainsRune :: "string \<Rightarrow> char \<Rightarrow> bool" where
  "strings_ContainsRune s r = (r \<in> set s)"

definition strings_TrimPrefix :: "string \<Rightarrow> string \<Rightarrow> string" where
  "strings_TrimPrefix s pre = (if prefix pre s then drop (length pre) s else s)"

text \<open>
  \<open>strings.EqualFold\<close>, its byte loop: equal bytes continue; otherwise the smaller byte must be
  an upper-case ASCII letter and the larger one its lower-case form; both strings must end
  together. Go leaves this loop for Unicode case folding when a byte is \<open>0x80\<close> or above;
  the model compares such bytes as they are, so it is Go's function on ASCII strings.
\<close>

fun strings_EqualFold :: "string \<Rightarrow> string \<Rightarrow> bool" where
  "strings_EqualFold [] [] = True"
| "strings_EqualFold (sr # s) (tr # t) =
     (if tr = sr then strings_EqualFold s t
      else (let lo = min (of_char sr) (of_char tr) :: nat;
                hi = max (of_char sr) (of_char tr) :: nat
            in if of_char CHR ''A'' \<le> lo \<and> lo \<le> of_char CHR ''Z'' \<and> hi = lo + 32
               then strings_EqualFold s t else False))"
| "strings_EqualFold [] (tr # t) = False"
| "strings_EqualFold (sr # s) [] = False"

subsection \<open>The certificate\<close>

text \<open>
  Of \<open>x509.Certificate\<close> the code reads the subject-alternative-name e-mail addresses; \<open>Raw\<close> is
  the DER encoding that the fingerprint is a digest of. \<open>utils.CertHexFingerprint\<close> is not part
  of sign.go: the functions below take it as the parameter \<open>fingerprint\<close>.
\<close>

record x509_Certificate =
  EmailAddresses :: "string list"
  Raw :: string

subsection \<open>The identity matcher\<close>

definition normalizeEmail :: "string \<Rightarrow> (string \<times> error option) outcome" where
  "normalizeEmail userId =
     (let emailStartIndex = strings_Index userId ''<'' in
      if emailStartIndex \<noteq> - 1 then
        (let emailEndIndex = strings_Index userId ''>'' in
         case slice userId emailStartIndex emailEndIndex of
           Panic p \<Rightarrow> Panic p
         | Return email \<Rightarrow> Return (email, None))
      else if strings_ContainsRune userId CHR ''@'' then Return (userId, None)
      else Return ('''', Some (errors_New ''user id doesn't contain email address'')))"

definition normalizeFingerprint :: "string \<Rightarrow> string" where
  "normalizeFingerprint userId = strings_TrimPrefix userId ''0x''"

text \<open>The \<open>range\<close> loop of \<open>certificateContainsEmail\<close> over the SAN addresses.\<close>

primrec range_EmailAddresses :: "string list \<Rightarrow> string \<Rightarrow> bool" where
  "range_EmailAddresses [] email = False"
| "range_EmailAddresses (sanEmail # rest) email =
     (if sanEmail = email then True else range_EmailAddresses rest email)"

definition certificateContainsEmail :: "x509_Certificate \<Rightarrow> string \<Rightarrow> bool" where
  "certificateContainsEmail certificate email =
     range_EmailAddresses (EmailAddresses certificate) email"

definition certificateContainsUserId ::
  "(x509_Certificate \<Rightarrow> string) \<Rightarrow> x509_Certificate \<Rightarrow> string \<Rightarrow> error option outcome" where
  "certificateContainsUserId fingerprint cert userId =
     (case normalizeEmail userId of
        Panic p \<Rightarrow> Panic p
      | Return (email, Some err) \<Rightarrow>
          (let fpr = normalizeFingerprint userId in
           if \<not> strings_EqualFold (fingerprint cert) fpr
           then Return (Some (errors_Errorf (''no certificate found with fingerprint '' @ fpr)))
           else Return None)
      | Return (email, None) \<Rightarrow>
          if \<not> certificateContainsEmail cert email
          then Return (Some (errors_Errorf (''no certificate found with email '' @ email)))
          else Return None)"

subsection \<open>The collaborators of Sign and the world it acts on\<close>

text \<open>
  \<open>SignOpts\<close> as in the source.
\<close>

record SignOpts =
  StatusFd :: int
  Detach :: bool
  Armor :: bool
  UserId :: string
  TimestampAuthority :: string
  FileArgs :: "string list"

text \<open>\<open>pem.Block\<close>; Sign sets \<open>Type\<close> and \<open>Bytes\<close> and leaves \<open>Headers\<close> nil.\<close>

record pem_Block =
  Type :: string
  Headers :: "(string \<times> string) list"
  Bytes :: string

text \<open>The \<open>io.ReadCloser\<close> that Sign reads the message from.\<close>

datatype reader = os_Stdin | File string

text \<open>
  What Sign does to the outside, in program order: the files it opens, reads and closes, and
  the calls it makes to the status emitter.
\<close>

datatype io_event = Open string | Copy reader | Close string

datatype status_event = BeginSigning | SigCreated x509_Certificate bool

record world =
  stdout :: string
  status_fd :: "int option"
  status :: "status_event list"
  io_log :: "io_event list"

text \<open>
  The packages sign.go calls and that are not part of it (yubikey, utils, ietf-cms, os, io,
  encoding/pem) are parameters: one field for each function called, a fallible one returning
  \<open>error + 'a\<close>. \<open>'yk\<close> is the smartcard session, \<open>'slot\<close> a PIV slot, \<open>'signer\<close> the
  \<open>crypto.Signer\<close> bound to the slot, \<open>'sd\<close> the CMS \<open>SignedData\<close> under construction (the
  methods that mutate it return the new value).

  Standard output accepts \<open>Stdout_capacity\<close> bytes in total (\<open>None\<close>: any number); a write
  that does not fit stores the bytes that do and returns \<open>Stdout_error\<close>.
\<close>

record ('yk, 'slot, 'signer, 'sd) env =
  GetSigner :: "string \<Rightarrow> error + 'yk"
  GetSlot :: "string \<Rightarrow> 'slot"
  Certificate :: "'yk \<Rightarrow> 'slot \<Rightarrow> error + x509_Certificate"
  CertHexFingerprint :: "x509_Certificate \<Rightarrow> string"
  NewYubikeySigner :: "'yk \<Rightarrow> 'slot \<Rightarrow> 'signer"
  os_Open :: "string \<Rightarrow> error option"
  io_Copy :: "reader \<Rightarrow> error + string"
  NewSignedData :: "string \<Rightarrow> error + 'sd"
  sd_Sign :: "'sd \<Rightarrow> x509_Certificate list \<Rightarrow> 'signer \<Rightarrow> error + 'sd"
  sd_Detached :: "'sd \<Rightarrow> 'sd"
  sd_AddTimestamps :: "'sd \<Rightarrow> string \<Rightarrow> error + 'sd"
  sd_SetCertificates :: "'sd \<Rightarrow> x509_Certificate list \<Rightarrow> error + 'sd"
  sd_ToDER :: "'sd \<Rightarrow> error + string"
  pem_EncodeToMemory :: "pem_Block \<Rightarrow> string"
  Stdout_capacity :: "nat option"
  Stdout_error :: error

definition SetupStatus :: "int \<Rightarrow> world \<Rightarrow> world" where
  "SetupStatus fd w = w\<lparr>status_fd := Some fd\<rparr>"

definition EmitBeginSigning :: "world \<Rightarrow> world" where
  "EmitBeginSigning w = w\<lparr>status := status w @ [BeginSigning]\<rparr>"

definition EmitSigCreated :: "x509_Certificate \<Rightarrow> bool \<Rightarrow> world \<Rightarrow> world" where
  "EmitSigCreated cert detached w = w\<lparr>status := status w @ [SigCreated cert detached]\<rparr>"

definition log_io :: "io_event \<Rightarrow> world \<Rightarrow> world" where
  "log_io ev w = w\<lparr>io_log := io_log w @ [ev]\<rparr>"

text \<open>\<open>os.Stdout.Write b\<close>, its error result.\<close>

definition Stdout_Write ::
  "('yk, 'slot, 'signer, 'sd) env \<Rightarrow> string \<Rightarrow> world \<Rightarrow> error option \<times> world" where
  "Stdout_Write env b w =
     (let room = (case Stdout_capacity env of
                    None \<Rightarrow> length b
                  | Some c \<Rightarrow> c - length (stdout w))
      in if length b \<le> room then (None, w\<lparr>stdout := stdout w @ b\<rparr>)
         else (Some (Stdout_error env), w\<lparr>stdout := stdout w @ take room b\<rparr>))"

text \<open>
  \<open>pem.Encode os.Stdout block\<close> writes the encoding of the block (what \<open>pem.EncodeToMemory\<close>
  returns) to standard output and returns the first write error.
\<close>

definition pem_Encode ::
  "('yk, 'slot, 'signer, 'sd) env \<Rightarrow> pem_Block \<Rightarrow> world \<Rightarrow> error option \<times> world" where
  "pem_Encode env block w = Stdout_Write env (pem_EncodeToMemory env block) w"

subsection \<open>Sign\<close>

text \<open>
  Lines 58 to 108 of sign.go: what Sign does once the reader \<open>f\<close> is bound, from reading the
  message to writing the signature.
\<close>

definition Sign_message ::
  "('yk, 'slot, 'signer, 'sd) env \<Rightarrow> SignOpts \<Rightarrow> x509_Certificate \<Rightarrow> 'signer \<Rightarrow> reader
     \<Rightarrow> world \<Rightarrow> error option outcome \<times> world" where
  "Sign_message env opts cert yubikeySigner f w0 =
     (let w1 = log_io (Copy f) w0 in
      case io_Copy env f of
        Inl err \<Rightarrow> (Return (Some (errors_Wrap err ''read message to sign'')), w1)
      | Inr dataBuf \<Rightarrow>
      (case NewSignedData env dataBuf of
        Inl err \<Rightarrow> (Return (Some (errors_Wrap err ''create signed data'')), w1)
      | Inr sd0 \<Rightarrow>
      (case sd_Sign env sd0 [cert] yubikeySigner of
        Inl err \<Rightarrow> (Return (Some (errors_Wrap err ''sign message'')), w1)
      | Inr sd1 \<Rightarrow>
      (let w2 = EmitBeginSigning w1;
           sd2 = (if Detach opts then sd_Detached env sd1 else sd1)
       in
       case (if length (TimestampAuthority opts) > 0
             then sd_AddTimestamps env sd2 (TimestampAuthority opts) else Inr sd2) of
        Inl err \<Rightarrow> (Return (Some (errors_Wrap err ''add timestamp to signature'')), w2)
      | Inr sd3 \<Rightarrow>
      (let chain = [cert] in
       case sd_SetCertificates env sd3 chain of
        Inl err \<Rightarrow> (Return (Some (errors_Wrap err ''set certificates in signature'')), w2)
      | Inr sd4 \<Rightarrow>
      (case sd_ToDER env sd4 of
        Inl err \<Rightarrow> (Return (Some (errors_Wrap err ''serialize signature'')), w2)
      | Inr der \<Rightarrow>
      (let w3 = EmitSigCreated cert (Detach opts) w2;
           (err, w4) = (if Armor opts
                        then pem_Encode env
                               \<lparr>Type = ''SIGNED MESSAGE'', Headers = [], Bytes = der\<rparr> w3
                        else Stdout_Write env der w3)
       in if err \<noteq> None then (Return (Some (errors_New ''write signature'')), w4)
          else (Return None, w4))))))))"

text \<open>
  Sign. A panic of the identity check unwinds Sign where it stands. The deferred \<open>f.Close()\<close>
  runs when Sign returns, on every path after the file was opened.
\<close>

definition Sign ::
  "('yk, 'slot, 'signer, 'sd) env \<Rightarrow> string \<Rightarrow> SignOpts \<Rightarrow> world
     \<Rightarrow> error option outcome \<times> world" where
  "Sign env slot opts w =
     (case GetSigner env slot of
        Inl err \<Rightarrow> (Return (Some (errors_Wrap err ''open PIV for signing'')), w)
      | Inr yk \<Rightarrow>
      (let pivSlot = GetSlot env slot in
       case Certificate env yk pivSlot of
        Inl err \<Rightarrow> (Return (Some (errors_Wrap err ''get identity certificate'')), w)
      | Inr cert \<Rightarrow>
      (case certificateContainsUserId (CertHexFingerprint env) cert (UserId opts) of
        Panic p \<Rightarrow> (Panic p, w)
      | Return (Some err) \<Rightarrow>
          (Return (Some (errors_Wrap err ''no suitable certificate found'')), w)
      | Return None \<Rightarrow>
      (let yubikeySigner = NewYubikeySigner env yk pivSlot;
           w1 = SetupStatus (StatusFd opts) w
       in
       if length (FileArgs opts) = 1 then
         (let w2 = log_io (Open (FileArgs opts ! 0)) w1 in
          case os_Open env (FileArgs opts ! 0) of
            Some err \<Rightarrow>
              (Return (Some (errors_Wrap err
                 (''open message file ('' @ FileArgs opts ! 0 @ '')''))), w2)
          | None \<Rightarrow>
              (let (r, w3) = Sign_message env opts cert yubikeySigner
                               (File (FileArgs opts ! 0)) w2
               in (r, log_io (Close (FileArgs opts ! 0)) w3)))
       else Sign_message env opts cert yubikeySigner os_Stdin w1))))"

subsection \<open>What the specification means by a case-insensitive comparison\<close>

text \<open>
  The specification compares fingerprints "case-insensitively". On hexadecimal strings that
  is equality after mapping the ASCII letters \<open>A\<close> to \<open>Z\<close> to lower case; this definition
  follows the specification's words and is compared with \<open>strings_EqualFold\<close> below.
\<close>

definition ascii_toLower :: "char \<Rightarrow> char" where
  "ascii_toLower c =
     (if of_char CHR ''A'' \<le> (of_char c :: nat) \<and> (of_char c :: nat) \<le> of_char CHR ''Z''
      then char_of (of_char c + 32 :: nat) else c)"

definition equal_ignoring_case :: "string \<Rightarrow> string \<Rightarrow> bool" where
  "equal_ignoring_case s t = (map ascii_toLower s = map ascii_toLower t)"

subsection \<open>A stub smartcard and CMS library, for running Sign on concrete inputs\<close>

definition stub_cert :: x509_Certificate where
  "stub_cert = \<lparr>EmailAddresses = [''alice@example.com''], Raw = ''stub certificate''\<rparr>"

text \<open>An envelope with the PEM lines around the bytes as they are (no base64).\<close>

definition stub_pem :: "pem_Block \<Rightarrow> string" where
  "stub_pem b =
     ''-----BEGIN '' @ Type b @ ''-----'' @ [CHR 0x0A] @ Bytes b @
     [CHR 0x0A] @ ''-----END '' @ Type b @ ''-----'' @ [CHR 0x0A]"

definition stub_unwrap :: "string \<Rightarrow> string \<Rightarrow> string option" where
  "stub_unwrap label txt =
     (let pre = ''-----BEGIN '' @ label @ ''-----'' @ [CHR 0x0A];
          post = [CHR 0x0A] @ ''-----END '' @ label @ ''-----'' @ [CHR 0x0A]
      in if prefix pre txt \<and> suffix post (drop (length pre) txt)
         then Some (take (length txt - length pre - length post) (drop (length pre) txt))
         else None)"

text \<open>
  The stub's \<open>SignedData\<close> is the content and the detached flag; its DER form embeds the
  content unless detached.
\<close>

definition stub_env :: "(unit, string, unit, string \<times> bool) env" where
  "stub_env =
     \<lparr>GetSigner = (\<lambda>slot. Inr ()),
      GetSlot = (\<lambda>slot. slot),
      Certificate = (\<lambda>yk pivSlot. Inr stub_cert),
      CertHexFingerprint = (\<lambda>cert. ''0a1b2c3d4e5f''),
      NewYubikeySigner = (\<lambda>yk pivSlot. ()),
      os_Open = (\<lambda>path. if path = ''msg.txt'' then None else Some (External ''no such file'')),
      io_Copy = (\<lambda>f. case f of os_Stdin \<Rightarrow> Inr ''hello'' | File path \<Rightarrow> Inr ''from file''),
      NewSignedData = (\<lambda>content. Inr (content, False)),
      sd_Sign = (\<lambda>sd certs signer. Inr sd),
      sd_Detached = (\<lambda>sd. (fst sd, True)),
      sd_AddTimestamps = (\<lambda>sd url. Inr sd),
      sd_SetCertificates = (\<lambda>sd chain. Inr sd),
      sd_ToDER = (\<lambda>sd. Inr (if snd sd then ''CMS'' else ''CMS:'' @ fst sd)),
      pem_EncodeToMemory = stub_pem,
      Stdout_capacity = None,
      Stdout_error = External ''broken pipe''\<rparr>"

text \<open>The stub with the card pulled before signing, and with a pipe that takes two bytes.\<close>

definition stub_env_card_removed :: "(unit, string, unit, string \<times> bool) env" where
  "stub_env_card_removed =
     stub_env\<lparr>sd_Sign := (\<lambda>sd certs signer. Inl (External ''card removed''))\<rparr>"

definition stub_env_short_pipe :: "(unit, string, unit, string \<times> bool) env" where
  "stub_env_short_pipe = stub_env\<lparr>Stdout_capacity := Some 2\<rparr>"

definition stub_opts :: SignOpts where
  "stub_opts =
     \<lparr>StatusFd = 2, Detach = True, Armor = False, UserId = ''alice@example.com'',
      TimestampAuthority = [], FileArgs = []\<rparr>"

definition world0 :: world where
  "world0 = \<lparr>stdout = [], status_fd = None, status = [], io_log = []\<rparr>"

section \<open>Properties\<close>

subsection \<open>The string functions\<close>

lemma strings_Index_absent: "c \<notin> set s \<Longrightarrow> strings_Index s [c] = - 1"
  by (induction s) auto

lemma strings_Index_first:
  "c \<notin> set xs \<Longrightarrow> strings_Index (xs @ c # ys) [c] = int (length xs)"
  by (induction xs) (auto simp: Let_def)

lemma strings_Index_present:
  "c \<in> set s \<Longrightarrow> 0 \<le> strings_Index s [c] \<and> strings_Index s [c] < int (length s)"
  by (induction s) (auto simp: Let_def)

lemma range_EmailAddresses_iff: "range_EmailAddresses sans email \<longleftrightarrow> email \<in> set sans"
  by (induction sans) auto

text \<open>\<open>strings_EqualFold\<close> is the specification's comparison: equality up to ASCII case.\<close>

lemma ascii_toLower_alt:
  "ascii_toLower c =
     char_of (if 65 \<le> (of_char c :: nat) \<and> (of_char c :: nat) \<le> 90
              then of_char c + 32 else (of_char c :: nat))"
  by (simp add: ascii_toLower_def)

lemma ascii_toLower_eq_iff:
  "ascii_toLower sr = ascii_toLower tr \<longleftrightarrow>
     (tr = sr \<or>
      (let lo = min (of_char sr) (of_char tr) :: nat; hi = max (of_char sr) (of_char tr) :: nat
       in of_char CHR ''A'' \<le> lo \<and> lo \<le> of_char CHR ''Z'' \<and> hi = lo + 32))"
proof -
  define a b :: nat where "a = of_char sr" and "b = of_char tr"
  have s: "a < 256" and t: "b < 256" by (simp_all add: a_def b_def)
  define la lb where "la = (if 65 \<le> a \<and> a \<le> 90 then a + 32 else a)"
    and "lb = (if 65 \<le> b \<and> b \<le> 90 then b + 32 else b)"
  have l: "la < 256" "lb < 256" using s t by (simp_all add: la_def lb_def)
  have "ascii_toLower sr = ascii_toLower tr \<longleftrightarrow> char_of la = char_of lb"
    by (simp only: ascii_toLower_alt la_def lb_def a_def b_def)
  also have "\<dots> \<longleftrightarrow> la = lb"
    using l by (simp add: char_of_eq_iff take_bit_nat_eq_self)
  also have "\<dots> \<longleftrightarrow> (b = a \<or> (65 \<le> min a b \<and> min a b \<le> 90 \<and> max a b = min a b + 32))"
    unfolding la_def lb_def min_def max_def by (simp split: if_splits) linarith
  finally show ?thesis
    by (simp add: a_def b_def Let_def)
qed

lemma strings_EqualFold_iff: "strings_EqualFold s t \<longleftrightarrow> equal_ignoring_case s t"
proof (induction s arbitrary: t)
  case Nil
  show ?case by (cases t) (simp_all add: equal_ignoring_case_def)
next
  case (Cons sr s)
  show ?case
  proof (cases t)
    case Nil
    then show ?thesis by (simp add: equal_ignoring_case_def)
  next
    case (Cons tr t')
    define Q where "Q \<longleftrightarrow>
      (let lo = min (of_char sr) (of_char tr) :: nat; hi = max (of_char sr) (of_char tr) :: nat
       in of_char CHR ''A'' \<le> lo \<and> lo \<le> of_char CHR ''Z'' \<and> hi = lo + 32)"
    have k: "ascii_toLower sr = ascii_toLower tr \<longleftrightarrow> tr = sr \<or> Q"
      unfolding Q_def by (rule ascii_toLower_eq_iff)
    have "strings_EqualFold (sr # s) (tr # t') =
            (if tr = sr then strings_EqualFold s t'
             else if Q then strings_EqualFold s t' else False)"
      unfolding Q_def by (simp only: strings_EqualFold.simps Let_def)
    also have "\<dots> \<longleftrightarrow> (tr = sr \<or> Q) \<and> equal_ignoring_case s t'"
      using Cons.IH [of t'] by (simp only: split: if_split) blast
    also have "\<dots> \<longleftrightarrow> equal_ignoring_case (sr # s) (tr # t')"
      using k by (simp add: equal_ignoring_case_def)
    finally show ?thesis using Cons by simp
  qed
qed

subsection \<open>What normalizeEmail returns\<close>

text \<open>
  On \<open>name <email> rest\<close> the slice starts at the bracket, not after it: the token is the
  address with the \<open><\<close> in front.
\<close>

lemma normalizeEmail_bracketed:
  assumes "CHR ''<'' \<notin> set name" "CHR ''>'' \<notin> set name" "CHR ''>'' \<notin> set email"
  shows "normalizeEmail (name @ CHR ''<'' # email @ CHR ''>'' # rest) =
           Return (CHR ''<'' # email, None)"
proof -
  let ?u = "name @ CHR ''<'' # email @ CHR ''>'' # rest"
  have s: "strings_Index ?u ''<'' = int (length name)"
    using strings_Index_first [OF assms(1)] by simp
  have "CHR ''>'' \<notin> set (name @ CHR ''<'' # email)" using assms by simp
  from strings_Index_first [OF this, of rest]
  have e: "strings_Index ?u ''>'' = int (length name) + 1 + int (length email)"
    by simp
  have n: "nat (1 + int (length email)) = Suc (length email)" by simp
  show ?thesis
    unfolding normalizeEmail_def s e by (simp add: slice_def n)
qed

text \<open>
  With a \<open><\<close> and the first \<open>>\<close> missing or in front of it, the slice bounds are out of
  range, and only then.
\<close>

lemma normalizeEmail_Panic_iff:
  "(\<exists>p. normalizeEmail userId = Panic p) \<longleftrightarrow>
     CHR ''<'' \<in> set userId \<and> strings_Index userId ''>'' < strings_Index userId ''<''"
proof (cases "CHR ''<'' \<in> set userId")
  case True
  have "strings_Index userId ''>'' \<le> int (length userId)"
    using strings_Index_present [of "CHR ''>''" userId]
      strings_Index_absent [of "CHR ''>''" userId]
    by (cases "CHR ''>'' \<in> set userId") auto
  then show ?thesis
    using True strings_Index_present [of "CHR ''<''" userId]
    by (auto simp: normalizeEmail_def slice_def Let_def)
next
  case False
  then show ?thesis
    using strings_Index_absent [of "CHR ''<''" userId]
    by (simp add: normalizeEmail_def)
qed

lemma normalizeEmail_unclosed:
  assumes "CHR ''<'' \<in> set userId" "CHR ''>'' \<notin> set userId"
  shows "normalizeEmail userId =
           Panic (slice_bounds_out_of_range (strings_Index userId ''<'') (- 1))"
  using assms strings_Index_present [of "CHR ''<''" userId]
    strings_Index_absent [of "CHR ''>''" userId]
  by (simp add: normalizeEmail_def slice_def Let_def)

lemma normalizeEmail_no_bracket:
  assumes "CHR ''<'' \<notin> set userId"
  shows "normalizeEmail userId =
           (if CHR ''@'' \<in> set userId then Return (userId, None)
            else Return ('''', Some (errors_New ''user id doesn't contain email address'')))"
  using assms strings_Index_absent [of "CHR ''<''" userId]
  by (simp add: normalizeEmail_def strings_ContainsRune_def)

subsection \<open>What certificateContainsUserId returns\<close>

lemma certificateContainsUserId_of_email:
  assumes "normalizeEmail userId = Return (email, None)"
  shows "certificateContainsUserId fingerprint cert userId =
           (if email \<in> set (EmailAddresses cert) then Return None
            else Return (Some (errors_Errorf (''no certificate found with email '' @ email))))"
  using assms
  by (simp add: certificateContainsUserId_def certificateContainsEmail_def
      range_EmailAddresses_iff)

lemma certificateContainsUserId_of_fingerprint:
  assumes "normalizeEmail userId = Return (email, Some err)"
  shows "certificateContainsUserId fingerprint cert userId =
           (if equal_ignoring_case (fingerprint cert) (normalizeFingerprint userId)
            then Return None
            else Return (Some (errors_Errorf
                   (''no certificate found with fingerprint '' @ normalizeFingerprint userId))))"
  using assms
  by (simp add: certificateContainsUserId_def strings_EqualFold_iff)

lemma certificateContainsUserId_Panic_iff:
  "(\<exists>p. certificateContainsUserId fingerprint cert userId = Panic p) \<longleftrightarrow>
     (\<exists>p. normalizeEmail userId = Panic p)"
  by (auto simp: certificateContainsUserId_def Let_def split: outcome.splits option.splits)

subsection \<open>The identity matcher against its claims\<close>

lemmas matcher_defs =
  certificateContainsUserId_def normalizeEmail_def normalizeFingerprint_def
  certificateContainsEmail_def strings_TrimPrefix_def strings_ContainsRune_def slice_def

lemma stub_cert_emails: "EmailAddresses stub_cert = [''alice@example.com'']"
  by (simp add: stub_cert_def)

text \<open>
  Claim C1: for a hint of the form \<open>Name <email>\<close> the matcher resolves the e-mail token to
  the substring strictly between the first \<open><\<close> and the first subsequent \<open>>\<close>, so that the
  exact match against a SAN address succeeds when the enclosed address is a SAN entry.

  The code does not do this. On \<open>Alice <alice@example.com>\<close> the token is
  \<open><alice@example.com\<close>, bracket included, and the certificate whose SAN list holds
  \<open>alice@example.com\<close> is rejected.
\<close>

theorem normalizeEmail_keeps_opening_bracket:
  "normalizeEmail ''Alice <alice@example.com>'' = Return (''<alice@example.com'', None) \<and>
   ''alice@example.com'' \<in> set (EmailAddresses stub_cert) \<and>
   certificateContainsUserId (CertHexFingerprint stub_env) stub_cert
       ''Alice <alice@example.com>'' =
     Return (Some (errors_Errorf ''no certificate found with email <alice@example.com''))"
  by (simp add: matcher_defs stub_cert_emails)

text \<open>
  Claim C2: for a hint that contains \<open><\<close> but no \<open>>\<close> (or whose first \<open>>\<close> precedes the
  first \<open><\<close>), identity matching fails with a malformed-identity error rather than
  panicking.

  The code has no such guard: on \<open>Alice <alice@example.com\<close> the slice is \<open>userId[6:-1]\<close>, on
  \<open>>Alice <alice@example.com>\<close> it is \<open>userId[7:0]\<close>; both panic, and Sign panics with them.
\<close>

theorem normalizeEmail_unguarded_slice_panics:
  "normalizeEmail ''Alice <alice@example.com'' = Panic (slice_bounds_out_of_range 6 (- 1)) \<and>
   normalizeEmail ''>Alice <alice@example.com>'' = Panic (slice_bounds_out_of_range 7 0) \<and>
   fst (Sign stub_env ''9c'' (stub_opts\<lparr>UserId := ''Alice <alice@example.com''\<rparr>) world0) =
     Panic (slice_bounds_out_of_range 6 (- 1))"
  by (simp add: matcher_defs Sign_def stub_env_def stub_opts_def stub_cert_emails)

text \<open>
  Claim C3: for every certificate and identity hint, the identity check returns success if and
  only if the hint resolves to an e-mail present in the SAN list or to a fingerprint equal to
  the certificate's up to case; otherwise it returns an IdentityMismatch error naming the kind
  of identity that was not found.

  On a hint with an unclosed bracket the check returns neither: it panics.
  (Where it does return, \<open>certificateContainsUserId_of_email\<close> and
  \<open>certificateContainsUserId_of_fingerprint\<close> above give the result the claim describes.)
\<close>

theorem certificateContainsUserId_panics:
  "certificateContainsUserId (CertHexFingerprint stub_env) stub_cert
       ''Alice <alice@example.com'' = Panic (slice_bounds_out_of_range 6 (- 1)) \<and>
   (\<forall>res. certificateContainsUserId (CertHexFingerprint stub_env) stub_cert
       ''Alice <alice@example.com'' \<noteq> Return res)"
  by (simp add: matcher_defs)

text \<open>
  Claim C6: a hint with neither an angle bracket nor \<open>@\<close> is treated as a fingerprint: an
  optional leading \<open>0x\<close> is stripped and the rest is compared, ignoring case, with the hex
  fingerprint of the certificate; a mismatch is the fingerprint error.
\<close>

theorem certificateContainsUserId_fingerprint_hint:
  assumes "CHR ''<'' \<notin> set userId" and "CHR ''@'' \<notin> set userId"
  shows "certificateContainsUserId fingerprint cert userId =
           (let fpr = (if prefix ''0x'' userId then drop 2 userId else userId)
            in if equal_ignoring_case (fingerprint cert) fpr then Return None
               else Return (Some (errors_Errorf
                      (''no certificate found with fingerprint '' @ fpr))))"
  using assms
  by (simp add: certificateContainsUserId_def normalizeEmail_no_bracket normalizeFingerprint_def
      strings_TrimPrefix_def strings_EqualFold_iff Let_def numeral_2_eq_2)

theorem certificateContainsUserId_fingerprint_hint_witness:
  "CHR ''<'' \<notin> set ''0x0A1B2C3D4E5F'' \<and> CHR ''@'' \<notin> set ''0x0A1B2C3D4E5F'' \<and>
   certificateContainsUserId (\<lambda>cert. ''0a1b2c3d4e5f'') stub_cert ''0x0A1B2C3D4E5F'' =
     Return None \<and>
   certificateContainsUserId (\<lambda>cert. ''0a1b2c3d4e5f'') stub_cert ''DEADBEEF'' =
     Return (Some (errors_Errorf ''no certificate found with fingerprint DEADBEEF''))"
proof -
  have h1: "CHR ''<'' \<notin> set ''0x0A1B2C3D4E5F''" and h2: "CHR ''@'' \<notin> set ''0x0A1B2C3D4E5F''"
    by simp_all
  have h3: "CHR ''<'' \<notin> set ''DEADBEEF''" and h4: "CHR ''@'' \<notin> set ''DEADBEEF''"
    by simp_all
  show ?thesis
    using h1 h2
      certificateContainsUserId_fingerprint_hint
        [OF h1 h2, of "\<lambda>cert. ''0a1b2c3d4e5f''" stub_cert]
      certificateContainsUserId_fingerprint_hint
        [OF h3 h4, of "\<lambda>cert. ''0a1b2c3d4e5f''" stub_cert]
    by (simp add: strings_EqualFold_iff [symmetric])
qed

subsection \<open>The steps of Sign on the world\<close>

lemma Stdout_Write_fields [simp]:
  "status (snd (Stdout_Write env b w)) = status w"
  "io_log (snd (Stdout_Write env b w)) = io_log w"
  "status_fd (snd (Stdout_Write env b w)) = status_fd w"
  by (simp_all add: Stdout_Write_def Let_def)

lemma Stdout_Write_stdout:
  "stdout (snd (Stdout_Write env b w)) =
     stdout w @ (if fst (Stdout_Write env b w) = None then b
                 else take (the (Stdout_capacity env) - length (stdout w)) b)"
  by (simp add: Stdout_Write_def Let_def split: option.splits)

lemma world_steps [simp]:
  "status (log_io ev w) = status w"
  "stdout (log_io ev w) = stdout w"
  "io_log (log_io ev w) = io_log w @ [ev]"
  "status (SetupStatus fd w) = status w"
  "stdout (SetupStatus fd w) = stdout w"
  "io_log (SetupStatus fd w) = io_log w"
  "status (EmitBeginSigning w) = status w @ [BeginSigning]"
  "stdout (EmitBeginSigning w) = stdout w"
  "io_log (EmitBeginSigning w) = io_log w"
  "status (EmitSigCreated cert d w) = status w @ [SigCreated cert d]"
  "stdout (EmitSigCreated cert d w) = stdout w"
  "io_log (EmitSigCreated cert d w) = io_log w"
  by (simp_all add: log_io_def SetupStatus_def EmitBeginSigning_def EmitSigCreated_def)

subsection \<open>The paths through Sign\<close>

text \<open>
  A run of \<open>Sign_message\<close> leaves at one of its six error returns or reaches the write with
  the serialized signature.
\<close>

lemma Sign_message_paths:
  fixes env :: "('yk, 'slot, 'signer, 'sd) env"
  obtains
    (read_failed) err where
      "io_Copy env f = Inl err"
      "Sign_message env opts cert sg f w =
         (Return (Some (errors_Wrap err ''read message to sign'')), log_io (Copy f) w)"
  | (create_failed) dataBuf err where
      "io_Copy env f = Inr dataBuf" "NewSignedData env dataBuf = Inl err"
      "Sign_message env opts cert sg f w =
         (Return (Some (errors_Wrap err ''create signed data'')), log_io (Copy f) w)"
  | (sign_failed) dataBuf sd0 err where
      "io_Copy env f = Inr dataBuf" "NewSignedData env dataBuf = Inr sd0"
      "sd_Sign env sd0 [cert] sg = Inl err"
      "Sign_message env opts cert sg f w =
         (Return (Some (errors_Wrap err ''sign message'')), log_io (Copy f) w)"
  | (timestamp_failed) dataBuf sd0 sd1 err where
      "io_Copy env f = Inr dataBuf" "NewSignedData env dataBuf = Inr sd0"
      "sd_Sign env sd0 [cert] sg = Inr sd1"
      "(if length (TimestampAuthority opts) > 0
        then sd_AddTimestamps env (if Detach opts then sd_Detached env sd1 else sd1)
               (TimestampAuthority opts)
        else Inr (if Detach opts then sd_Detached env sd1 else sd1)) = Inl err"
      "Sign_message env opts cert sg f w =
         (Return (Some (errors_Wrap err ''add timestamp to signature'')),
          EmitBeginSigning (log_io (Copy f) w))"
  | (certificates_failed) dataBuf sd0 sd1 sd3 err where
      "io_Copy env f = Inr dataBuf" "NewSignedData env dataBuf = Inr sd0"
      "sd_Sign env sd0 [cert] sg = Inr sd1"
      "(if length (TimestampAuthority opts) > 0
        then sd_AddTimestamps env (if Detach opts then sd_Detached env sd1 else sd1)
               (TimestampAuthority opts)
        else Inr (if Detach opts then sd_Detached env sd1 else sd1)) = Inr sd3"
      "sd_SetCertificates env sd3 [cert] = Inl err"
      "Sign_message env opts cert sg f w =
         (Return (Some (errors_Wrap err ''set certificates in signature'')),
          EmitBeginSigning (log_io (Copy f) w))"
  | (serialize_failed) dataBuf sd0 sd1 sd3 sd4 err where
      "io_Copy env f = Inr dataBuf" "NewSignedData env dataBuf = Inr sd0"
      "sd_Sign env sd0 [cert] sg = Inr sd1"
      "(if length (TimestampAuthority opts) > 0
        then sd_AddTimestamps env (if Detach opts then sd_Detached env sd1 else sd1)
               (TimestampAuthority opts)
        else Inr (if Detach opts then sd_Detached env sd1 else sd1)) = Inr sd3"
      "sd_SetCertificates env sd3 [cert] = Inr sd4" "sd_ToDER env sd4 = Inl err"
      "Sign_message env opts cert sg f w =
         (Return (Some (errors_Wrap err ''serialize signature'')),
          EmitBeginSigning (log_io (Copy f) w))"
  | (serialized) dataBuf sd0 sd1 sd3 sd4 der where
      "io_Copy env f = Inr dataBuf" "NewSignedData env dataBuf = Inr sd0"
      "sd_Sign env sd0 [cert] sg = Inr sd1"
      "(if length (TimestampAuthority opts) > 0
        then sd_AddTimestamps env (if Detach opts then sd_Detached env sd1 else sd1)
               (TimestampAuthority opts)
        else Inr (if Detach opts then sd_Detached env sd1 else sd1)) = Inr sd3"
      "sd_SetCertificates env sd3 [cert] = Inr sd4" "sd_ToDER env sd4 = Inr der"
      "Sign_message env opts cert sg f w =
         (let wr = (if Armor opts
                    then pem_Encode env
                           \<lparr>Type = ''SIGNED MESSAGE'', Headers = [], Bytes = der\<rparr>
                           (EmitSigCreated cert (Detach opts)
                              (EmitBeginSigning (log_io (Copy f) w)))
                    else Stdout_Write env der
                           (EmitSigCreated cert (Detach opts)
                              (EmitBeginSigning (log_io (Copy f) w))))
          in if fst wr \<noteq> None then (Return (Some (errors_New ''write signature'')), snd wr)
             else (Return None, snd wr))"
proof (cases "io_Copy env f")
  case (Inl e)
  then show ?thesis by (intro read_failed [of e]) (simp_all add: Sign_message_def)
next
  case c: (Inr dataBuf)
  show ?thesis
  proof (cases "NewSignedData env dataBuf")
    case (Inl e)
    then show ?thesis using c
      by (intro create_failed [of dataBuf e]) (simp_all add: Sign_message_def)
  next
    case n: (Inr sd0)
    show ?thesis
    proof (cases "sd_Sign env sd0 [cert] sg")
      case (Inl e)
      then show ?thesis using c n
        by (intro sign_failed [of dataBuf sd0 e]) (simp_all add: Sign_message_def)
    next
      case s: (Inr sd1)
      define ts where "ts = (if length (TimestampAuthority opts) > 0
        then sd_AddTimestamps env (if Detach opts then sd_Detached env sd1 else sd1)
               (TimestampAuthority opts)
        else Inr (if Detach opts then sd_Detached env sd1 else sd1))"
      show ?thesis
      proof (cases ts)
        case (Inl e)
        then show ?thesis using c n s unfolding ts_def
          by (intro timestamp_failed [of dataBuf sd0 sd1 e]) (simp_all add: Sign_message_def)
      next
        case t: (Inr sd3)
        show ?thesis
        proof (cases "sd_SetCertificates env sd3 [cert]")
          case (Inl e)
          then show ?thesis using c n s t unfolding ts_def
            by (intro certificates_failed [of dataBuf sd0 sd1 sd3 e])
               (simp_all add: Sign_message_def)
        next
          case sc: (Inr sd4)
          show ?thesis
          proof (cases "sd_ToDER env sd4")
            case (Inl e)
            then show ?thesis using c n s t sc unfolding ts_def
              by (intro serialize_failed [of dataBuf sd0 sd1 sd3 sd4 e])
                 (simp_all add: Sign_message_def)
          next
            case (Inr der)
            then show ?thesis using c n s t sc unfolding ts_def
              by (intro serialized [of dataBuf sd0 sd1 sd3 sd4 der])
                 (simp_all add: Sign_message_def Let_def split_beta)
          qed
        qed
      qed
    qed
  qed
qed

text \<open>
  A run of \<open>Sign\<close> leaves before the message is read (four error returns, or the panic of
  the identity check), fails to open the file, or runs \<open>Sign_message\<close> on the file or on
  standard input.
\<close>

lemma Sign_paths:
  fixes env :: "('yk, 'slot, 'signer, 'sd) env"
  obtains
    (open_piv_failed) err where
      "GetSigner env slot = Inl err"
      "Sign env slot opts w = (Return (Some (errors_Wrap err ''open PIV for signing'')), w)"
  | (certificate_failed) yk err where
      "GetSigner env slot = Inr yk" "Certificate env yk (GetSlot env slot) = Inl err"
      "Sign env slot opts w = (Return (Some (errors_Wrap err ''get identity certificate'')), w)"
  | (identity_panic) yk cert p where
      "GetSigner env slot = Inr yk" "Certificate env yk (GetSlot env slot) = Inr cert"
      "certificateContainsUserId (CertHexFingerprint env) cert (UserId opts) = Panic p"
      "Sign env slot opts w = (Panic p, w)"
  | (identity_mismatch) yk cert err where
      "GetSigner env slot = Inr yk" "Certificate env yk (GetSlot env slot) = Inr cert"
      "certificateContainsUserId (CertHexFingerprint env) cert (UserId opts) = Return (Some err)"
      "Sign env slot opts w =
         (Return (Some (errors_Wrap err ''no suitable certificate found'')), w)"
  | (open_failed) yk cert err where
      "GetSigner env slot = Inr yk" "Certificate env yk (GetSlot env slot) = Inr cert"
      "certificateContainsUserId (CertHexFingerprint env) cert (UserId opts) = Return None"
      "length (FileArgs opts) = 1" "os_Open env (FileArgs opts ! 0) = Some err"
      "Sign env slot opts w =
         (Return (Some (errors_Wrap err (''open message file ('' @ FileArgs opts ! 0 @ '')''))),
          log_io (Open (FileArgs opts ! 0)) (SetupStatus (StatusFd opts) w))"
  | (from_file) yk cert where
      "GetSigner env slot = Inr yk" "Certificate env yk (GetSlot env slot) = Inr cert"
      "certificateContainsUserId (CertHexFingerprint env) cert (UserId opts) = Return None"
      "length (FileArgs opts) = 1" "os_Open env (FileArgs opts ! 0) = None"
      "Sign env slot opts w =
         (fst (Sign_message env opts cert (NewYubikeySigner env yk (GetSlot env slot))
                 (File (FileArgs opts ! 0))
                 (log_io (Open (FileArgs opts ! 0)) (SetupStatus (StatusFd opts) w))),
          log_io (Close (FileArgs opts ! 0))
            (snd (Sign_message env opts cert (NewYubikeySigner env yk (GetSlot env slot))
                    (File (FileArgs opts ! 0))
                    (log_io (Open (FileArgs opts ! 0)) (SetupStatus (StatusFd opts) w)))))"
  | (from_stdin) yk cert where
      "GetSigner env slot = Inr yk" "Certificate env yk (GetSlot env slot) = Inr cert"
      "certificateContainsUserId (CertHexFingerprint env) cert (UserId opts) = Return None"
      "length (FileArgs opts) \<noteq> 1"
      "Sign env slot opts w =
         Sign_message env opts cert (NewYubikeySigner env yk (GetSlot env slot)) os_Stdin
           (SetupStatus (StatusFd opts) w)"
proof (cases "GetSigner env slot")
  case (Inl e)
  then show ?thesis by (intro open_piv_failed [of e]) (simp_all add: Sign_def)
next
  case g: (Inr yk)
  show ?thesis
  proof (cases "Certificate env yk (GetSlot env slot)")
    case (Inl e)
    then show ?thesis using g by (intro certificate_failed [of yk e]) (simp_all add: Sign_def)
  next
    case c: (Inr cert)
    show ?thesis
    proof (cases "certificateContainsUserId (CertHexFingerprint env) cert (UserId opts)")
      case (Panic p)
      then show ?thesis using g c
        by (intro identity_panic [of yk cert p]) (simp_all add: Sign_def)
    next
      case r: (Return res)
      show ?thesis
      proof (cases res)
        case (Some e)
        then show ?thesis using g c r
          by (intro identity_mismatch [of yk cert e]) (simp_all add: Sign_def)
      next
        case None
        show ?thesis
        proof (cases "length (FileArgs opts) = 1")
          case False
          then show ?thesis using g c r None
            by (intro from_stdin [of yk cert]) (simp_all add: Sign_def)
        next
          case l: True
          show ?thesis
          proof (cases "os_Open env (FileArgs opts ! 0)")
            case (Some e)
            then show ?thesis using g c r None l
              by (intro open_failed [of yk cert e]) (simp_all add: Sign_def)
          next
            case n: None
            then show ?thesis using g c r None l
              by (intro from_file [of yk cert]) (simp_all add: Sign_def Let_def split_beta)
          qed
        qed
      qed
    qed
  qed
qed

lemma Sign_message_status:
  "status (snd (Sign_message env opts cert sg f w)) \<in>
     {status w, status w @ [BeginSigning],
      status w @ [BeginSigning, SigCreated cert (Detach opts)]}"
  by (cases rule: Sign_message_paths [of env f opts cert sg w])
     (simp_all add: pem_Encode_def Let_def)

lemma Sign_message_io_log:
  "io_log (snd (Sign_message env opts cert sg f w)) = io_log w @ [Copy f]"
  by (cases rule: Sign_message_paths [of env f opts cert sg w])
     (simp_all add: pem_Encode_def Let_def)

lemma Sign_status:
  "\<exists>evs. status (snd (Sign env slot opts w)) = status w @ evs \<and>
     (evs = [] \<or> evs = [BeginSigning] \<or>
      (\<exists>cert. evs = [BeginSigning, SigCreated cert (Detach opts)]))"
proof (cases rule: Sign_paths [of env slot opts w])
  case (from_file yk cert)
  then show ?thesis
    using Sign_message_status [of env opts cert "NewYubikeySigner env yk (GetSlot env slot)"
       "File (FileArgs opts ! 0)"
       "log_io (Open (FileArgs opts ! 0)) (SetupStatus (StatusFd opts) w)"]
    by auto
next
  case (from_stdin yk cert)
  then show ?thesis
    using Sign_message_status [of env opts cert "NewYubikeySigner env yk (GetSlot env slot)"
       os_Stdin "SetupStatus (StatusFd opts) w"]
    by auto
qed simp_all

text \<open>Sign opens a file only when there is exactly one file argument.\<close>

lemma Sign_opens_no_file:
  assumes "length (FileArgs opts) \<noteq> 1"
  shows "io_log (snd (Sign env slot opts w)) = io_log w \<or>
         io_log (snd (Sign env slot opts w)) = io_log w @ [Copy os_Stdin]"
  using assms
  by (cases rule: Sign_paths [of env slot opts w]) (simp_all add: Sign_message_io_log)

subsection \<open>Runs of the stub\<close>

lemmas Sign_defs =
  Sign_def Sign_message_def pem_Encode_def Stdout_Write_def SetupStatus_def
  EmitBeginSigning_def EmitSigCreated_def log_io_def

lemma stub_run_stdin:
  "Sign stub_env ''9c'' stub_opts world0 =
     (Return None, \<lparr>stdout = ''CMS'', status_fd = Some 2,
        status = [BeginSigning, SigCreated stub_cert True], io_log = [Copy os_Stdin]\<rparr>)"
  by (simp add: Sign_defs matcher_defs stub_env_def stub_opts_def world0_def stub_cert_emails)

lemma stub_run_armor:
  "Sign stub_env ''9c'' (stub_opts\<lparr>Armor := True\<rparr>) world0 =
     (Return None,
      \<lparr>stdout = stub_pem \<lparr>Type = ''SIGNED MESSAGE'', Headers = [], Bytes = ''CMS''\<rparr>,
        status_fd = Some 2,
        status = [BeginSigning, SigCreated stub_cert True], io_log = [Copy os_Stdin]\<rparr>)"
  by (simp add: Sign_defs matcher_defs stub_env_def stub_opts_def world0_def stub_cert_emails)

lemma stub_unwrap_stub_pem: "stub_unwrap (Type b) (stub_pem b) = Some (Bytes b)"
  by (simp add: stub_unwrap_def stub_pem_def Let_def suffix_def)

lemma stub_identity_alice:
  "certificateContainsUserId fpr stub_cert ''alice@example.com'' = Return None"
  by (simp add: matcher_defs stub_cert_emails)

lemma stub_identity_DEADBEEF:
  "certificateContainsUserId (CertHexFingerprint stub_env) stub_cert ''DEADBEEF'' =
     Return (Some (errors_Errorf ''no certificate found with fingerprint DEADBEEF''))"
  by (simp add: matcher_defs stub_env_def)

subsection \<open>Armored and raw runs\<close>

text \<open>
  Two runs that return nil and differ in \<open>Armor\<close> only have written the encoding of a
  block and the bytes of that block.
\<close>

lemma Sign_message_armor_raw:
  assumes A: "Sign_message env (opts\<lparr>Armor := True\<rparr>) cert sg f w = (Return None, wa)"
    and B: "Sign_message env (opts\<lparr>Armor := False\<rparr>) cert sg f w = (Return None, wb)"
  shows "\<exists>der. stdout wa = stdout w @
                  pem_EncodeToMemory env \<lparr>Type = ''SIGNED MESSAGE'', Headers = [], Bytes = der\<rparr>
             \<and> stdout wb = stdout w @ der"
proof (cases rule: Sign_message_paths [of env f "opts\<lparr>Armor := True\<rparr>" cert sg w])
  case (serialized dataBuf sd0 sd1 sd3 sd4 der)
  let ?w3 = "EmitSigCreated cert (Detach opts) (EmitBeginSigning (log_io (Copy f) w))"
  let ?blk = "\<lparr>Type = ''SIGNED MESSAGE'', Headers = [], Bytes = der\<rparr>"
  from serialized(7) A
  have a: "fst (Stdout_Write env (pem_EncodeToMemory env ?blk) ?w3) = None"
    and wa: "wa = snd (Stdout_Write env (pem_EncodeToMemory env ?blk) ?w3)"
    by (auto simp: pem_Encode_def Let_def split: if_splits)
  from serialized(1-6) B
  have b: "fst (Stdout_Write env der ?w3) = None" and wb: "wb = snd (Stdout_Write env der ?w3)"
    by (auto simp: Sign_message_def Let_def split_beta split: if_splits)
  have "stdout wa = stdout w @ pem_EncodeToMemory env ?blk"
    unfolding wa using a by (simp add: Stdout_Write_stdout)
  moreover have "stdout wb = stdout w @ der"
    unfolding wb using b by (simp add: Stdout_Write_stdout)
  ultimately show ?thesis by blast
qed (use A in simp_all)

text \<open>
  With room on standard output, the armored run and the raw run end the same way: both
  return nil, or both return the same error, or both panic.
\<close>

lemma Stdout_Write_unlimited:
  "Stdout_capacity env = None \<Longrightarrow> fst (Stdout_Write env b w) = None"
  by (simp add: Stdout_Write_def)

lemma Sign_message_armor_same_outcome:
  assumes "Stdout_capacity env = None"
  shows "fst (Sign_message env (opts\<lparr>Armor := True\<rparr>) cert sg f w) =
         fst (Sign_message env (opts\<lparr>Armor := False\<rparr>) cert sg f w)"
proof (cases rule: Sign_message_paths [of env f "opts\<lparr>Armor := True\<rparr>" cert sg w])
  case (serialized dataBuf sd0 sd1 sd3 sd4 der)
  from serialized(7)
  have "fst (Sign_message env (opts\<lparr>Armor := True\<rparr>) cert sg f w) = Return None"
    using assms by (simp add: pem_Encode_def Stdout_Write_unlimited Let_def)
  moreover from serialized(1-6)
  have "fst (Sign_message env (opts\<lparr>Armor := False\<rparr>) cert sg f w) = Return None"
    using assms
    by (auto simp: Sign_message_def Stdout_Write_unlimited Let_def split_beta split: if_splits)
  ultimately show ?thesis by simp
qed (auto simp: Sign_message_def split: if_splits)

lemma Sign_armor_same_outcome:
  assumes "Stdout_capacity env = None"
  shows "fst (Sign env slot (opts\<lparr>Armor := True\<rparr>) w) =
         fst (Sign env slot (opts\<lparr>Armor := False\<rparr>) w)"
proof (cases rule: Sign_paths [of env slot "opts\<lparr>Armor := True\<rparr>" w])
  case (from_file yk cert)
  then show ?thesis
    using Sign_message_armor_same_outcome [OF assms, of opts cert
        "NewYubikeySigner env yk (GetSlot env slot)" "File (FileArgs opts ! 0)"
        "log_io (Open (FileArgs opts ! 0)) (SetupStatus (StatusFd opts) w)"]
    by (simp add: Sign_def Let_def split_beta)
next
  case (from_stdin yk cert)
  then show ?thesis
    using Sign_message_armor_same_outcome [OF assms, of opts cert
        "NewYubikeySigner env yk (GetSlot env slot)" os_Stdin "SetupStatus (StatusFd opts) w"]
    by (simp add: Sign_def)
qed (simp_all add: Sign_def)

subsection \<open>Sign against its claims\<close>

text \<open>
  Claim C4: when the identity hint does not match the certificate, Sign fails with that
  error, writes no byte to standard output and emits no SigCreated status event.

  Sign returns the mismatch error wrapped as "no suitable certificate found" and leaves the
  world as it found it: nothing written, nothing emitted, nothing opened.
\<close>

theorem Sign_identity_mismatch:
  assumes "GetSigner env slot = Inr yk"
    and "Certificate env yk (GetSlot env slot) = Inr cert"
    and "certificateContainsUserId (CertHexFingerprint env) cert (UserId opts) =
           Return (Some err)"
  shows "Sign env slot opts w =
           (Return (Some (errors_Wrap err ''no suitable certificate found'')), w)"
  using assms by (simp add: Sign_def)

theorem Sign_identity_mismatch_witness:
  "GetSigner stub_env ''9c'' = Inr () \<and>
   Certificate stub_env () (GetSlot stub_env ''9c'') = Inr stub_cert \<and>
   certificateContainsUserId (CertHexFingerprint stub_env) stub_cert
       (UserId (stub_opts\<lparr>UserId := ''DEADBEEF''\<rparr>)) =
     Return (Some (errors_Errorf ''no certificate found with fingerprint DEADBEEF'')) \<and>
   Sign stub_env ''9c'' (stub_opts\<lparr>UserId := ''DEADBEEF''\<rparr>) world0 =
     (Return (Some (errors_Wrap
        (errors_Errorf ''no certificate found with fingerprint DEADBEEF'')
        ''no suitable certificate found'')), world0) \<and>
   stdout world0 = [] \<and> status world0 = []"
proof -
  have h1: "GetSigner stub_env ''9c'' = Inr ()" by (simp add: stub_env_def)
  have h2: "Certificate stub_env () (GetSlot stub_env ''9c'') = Inr stub_cert"
    by (simp add: stub_env_def)
  have h3: "certificateContainsUserId (CertHexFingerprint stub_env) stub_cert
       (UserId (stub_opts\<lparr>UserId := ''DEADBEEF''\<rparr>)) =
     Return (Some (errors_Errorf ''no certificate found with fingerprint DEADBEEF''))"
    by (simp add: stub_identity_DEADBEEF)
  from Sign_identity_mismatch [OF h1 h2 h3, of world0] h1 h2 h3
  show ?thesis by (simp add: world0_def)
qed

text \<open>
  Claim C5: in every run of Sign that emits SigCreated, BeginSigning was emitted strictly
  earlier.

  The events a run adds to the status channel are a list in emission order; every
  SigCreated in it has a BeginSigning at a smaller index.
\<close>

theorem Sign_BeginSigning_precedes_SigCreated:
  "\<exists>evs. status (snd (Sign env slot opts w)) = status w @ evs \<and>
     (\<forall>j<length evs. (\<exists>cert detached. evs ! j = SigCreated cert detached) \<longrightarrow>
        (\<exists>i<j. evs ! i = BeginSigning))"
proof -
  obtain evs where e: "status (snd (Sign env slot opts w)) = status w @ evs"
    and c: "evs = [] \<or> evs = [BeginSigning] \<or>
            (\<exists>cert. evs = [BeginSigning, SigCreated cert (Detach opts)])"
    using Sign_status by blast
  have "\<exists>i<j. evs ! i = BeginSigning"
    if "j < length evs" "\<exists>cert detached. evs ! j = SigCreated cert detached" for j
    using c that by (auto simp: less_Suc_eq nth_Cons')
  with e show ?thesis by blast
qed

theorem Sign_BeginSigning_precedes_SigCreated_witness:
  "\<exists>evs. status (snd (Sign stub_env ''9c'' stub_opts world0)) = status world0 @ evs \<and>
     1 < length evs \<and> evs ! 1 = SigCreated stub_cert True \<and> (\<exists>i<1. evs ! i = BeginSigning)"
proof -
  from Sign_BeginSigning_precedes_SigCreated [of stub_env "''9c''" stub_opts world0]
  obtain evs where e: "status (snd (Sign stub_env ''9c'' stub_opts world0)) = status world0 @ evs"
    and o: "\<forall>j<length evs. (\<exists>cert detached. evs ! j = SigCreated cert detached) \<longrightarrow>
        (\<exists>i<j. evs ! i = BeginSigning)"
    by blast
  from e have evs: "evs = [BeginSigning, SigCreated stub_cert True]"
    unfolding stub_run_stdin by (simp add: world0_def)
  then have "1 < length evs" "evs ! 1 = SigCreated stub_cert True" by simp_all
  with o e show ?thesis by blast
qed

text \<open>
  Claim C7: when writing the output to standard output fails, Sign returns the fixed error
  "write signature", which does not wrap the write error, and the failure is fatal.

  The run reaches the write with the signature \<open>der\<close>; the output (armored or raw) does not
  fit into what standard output still accepts.
\<close>

theorem Sign_write_failure:
  assumes "GetSigner env slot = Inr yk"
    and "Certificate env yk (GetSlot env slot) = Inr cert"
    and "certificateContainsUserId (CertHexFingerprint env) cert (UserId opts) = Return None"
    and "length (FileArgs opts) = 1 \<longrightarrow> os_Open env (FileArgs opts ! 0) = None"
    and "io_Copy env (if length (FileArgs opts) = 1 then File (FileArgs opts ! 0) else os_Stdin)
           = Inr dataBuf"
    and "NewSignedData env dataBuf = Inr sd0"
    and "sd_Sign env sd0 [cert] (NewYubikeySigner env yk (GetSlot env slot)) = Inr sd1"
    and "(if length (TimestampAuthority opts) > 0
          then sd_AddTimestamps env (if Detach opts then sd_Detached env sd1 else sd1)
                 (TimestampAuthority opts)
          else Inr (if Detach opts then sd_Detached env sd1 else sd1)) = Inr sd3"
    and "sd_SetCertificates env sd3 [cert] = Inr sd4"
    and "sd_ToDER env sd4 = Inr der"
    and "Stdout_capacity env = Some c"
    and "c - length (stdout w) <
           length (if Armor opts
                   then pem_EncodeToMemory env
                          \<lparr>Type = ''SIGNED MESSAGE'', Headers = [], Bytes = der\<rparr>
                   else der)"
  shows "\<exists>e. fst (Sign env slot opts w) = Return (Some e) \<and>
             e = errors_New ''write signature'' \<and> Unwrap e = None"
  using assms
  by (cases "length (FileArgs opts) = 1")
     (auto simp add: Sign_def Sign_message_def pem_Encode_def Stdout_Write_def Let_def split_beta
        split: if_splits)

theorem Sign_write_failure_witness:
  "Stdout_capacity stub_env_short_pipe = Some 2 \<and>
   sd_ToDER stub_env_short_pipe (''hello'', True) = Inr ''CMS'' \<and>
   2 - length (stdout world0) < length ''CMS'' \<and>
   (\<exists>e. fst (Sign stub_env_short_pipe ''9c'' stub_opts world0) = Return (Some e) \<and>
        e = errors_New ''write signature'' \<and> Unwrap e = None)"
proof -
  let ?env = stub_env_short_pipe
  have h1: "GetSigner ?env ''9c'' = Inr ()"
    and h2: "Certificate ?env () (GetSlot ?env ''9c'') = Inr stub_cert"
    and h4: "length (FileArgs stub_opts) = 1 \<longrightarrow> os_Open ?env (FileArgs stub_opts ! 0) = None"
    and h5: "io_Copy ?env (if length (FileArgs stub_opts) = 1
               then File (FileArgs stub_opts ! 0) else os_Stdin) = Inr ''hello''"
    and h6: "NewSignedData ?env ''hello'' = Inr (''hello'', False)"
    and h7: "sd_Sign ?env (''hello'', False) [stub_cert] (NewYubikeySigner ?env () (GetSlot ?env ''9c''))
               = Inr (''hello'', False)"
    and h8: "(if length (TimestampAuthority stub_opts) > 0
          then sd_AddTimestamps ?env
                 (if Detach stub_opts then sd_Detached ?env (''hello'', False)
                  else (''hello'', False))
                 (TimestampAuthority stub_opts)
          else Inr (if Detach stub_opts then sd_Detached ?env (''hello'', False)
                    else (''hello'', False))) = Inr (''hello'', True)"
    and h9: "sd_SetCertificates ?env (''hello'', True) [stub_cert] = Inr (''hello'', True)"
    and h10: "sd_ToDER ?env (''hello'', True) = Inr ''CMS''"
    and h11: "Stdout_capacity ?env = Some 2"
    by (simp_all add: stub_env_short_pipe_def stub_env_def stub_opts_def)
  have h3: "certificateContainsUserId (CertHexFingerprint ?env) stub_cert (UserId stub_opts)
              = Return None"
    by (simp add: stub_opts_def stub_identity_alice)
  have h12: "2 - length (stdout world0) <
           length (if Armor stub_opts
                   then pem_EncodeToMemory ?env
                          \<lparr>Type = ''SIGNED MESSAGE'', Headers = [], Bytes = ''CMS''\<rparr>
                   else ''CMS'')"
    by (simp add: stub_opts_def world0_def)
  from Sign_write_failure [OF h1 h2 h3 h4 h5 h6 h7 h8 h9 h10 h11 h12] h10 h11
  show ?thesis by (simp add: world0_def)
qed

text \<open>
  Claim C8: for the same signing input, the bytes written in armor mode, unwrapped from the
  PEM envelope labelled "SIGNED MESSAGE", are the bytes written in non-armor mode.

  The two runs differ in the \<open>Armor\<close> option only and start with nothing on standard
  output; \<open>unwrap\<close> is any function that takes the PEM encoding of a "SIGNED MESSAGE" block
  back to the block's bytes.
\<close>

theorem Sign_armor_unwraps_to_raw:
  assumes unwrap: "\<And>der. unwrap (pem_EncodeToMemory env
                      \<lparr>Type = ''SIGNED MESSAGE'', Headers = [], Bytes = der\<rparr>) = Some der"
    and empty: "stdout w = []"
    and A: "Sign env slot (opts\<lparr>Armor := True\<rparr>) w = (Return None, wa)"
    and B: "Sign env slot (opts\<lparr>Armor := False\<rparr>) w = (Return None, wb)"
  shows "unwrap (stdout wa) = Some (stdout wb)"
proof -
  have "\<exists>der. stdout wa = stdout w @
                  pem_EncodeToMemory env \<lparr>Type = ''SIGNED MESSAGE'', Headers = [], Bytes = der\<rparr>
             \<and> stdout wb = stdout w @ der"
  proof (cases rule: Sign_paths [of env slot "opts\<lparr>Armor := True\<rparr>" w])
    case (from_file yk cert)
    let ?sg = "NewYubikeySigner env yk (GetSlot env slot)"
    let ?f = "File (FileArgs opts ! 0)"
    let ?w2 = "log_io (Open (FileArgs opts ! 0)) (SetupStatus (StatusFd opts) w)"
    obtain ra wa' where
      a: "Sign_message env (opts\<lparr>Armor := True\<rparr>) cert ?sg ?f ?w2 = (ra, wa')"
      by (cases "Sign_message env (opts\<lparr>Armor := True\<rparr>) cert ?sg ?f ?w2")
    obtain rb wb' where
      b: "Sign_message env (opts\<lparr>Armor := False\<rparr>) cert ?sg ?f ?w2 = (rb, wb')"
      by (cases "Sign_message env (opts\<lparr>Armor := False\<rparr>) cert ?sg ?f ?w2")
    from from_file(6) A a
    have ra: "ra = Return None" and wa: "wa = log_io (Close (FileArgs opts ! 0)) wa'"
      by simp_all
    from from_file(1-5) B b
    have rb: "rb = Return None" and wb: "wb = log_io (Close (FileArgs opts ! 0)) wb'"
      by (simp_all add: Sign_def Let_def)
    from Sign_message_armor_raw [OF a [unfolded ra] b [unfolded rb]]
    show ?thesis by (simp add: wa wb)
  next
    case (from_stdin yk cert)
    let ?sg = "NewYubikeySigner env yk (GetSlot env slot)"
    from from_stdin(5) A
    have a: "Sign_message env (opts\<lparr>Armor := True\<rparr>) cert ?sg os_Stdin
               (SetupStatus (StatusFd opts) w) = (Return None, wa)"
      by simp
    from from_stdin(1-4) B
    have b: "Sign_message env (opts\<lparr>Armor := False\<rparr>) cert ?sg os_Stdin
               (SetupStatus (StatusFd opts) w) = (Return None, wb)"
      by (simp add: Sign_def)
    from Sign_message_armor_raw [OF a b] show ?thesis by simp
  qed (use A in simp_all)
  then show ?thesis using unwrap empty by auto
qed

theorem Sign_armor_unwraps_to_raw_witness:
  "stdout world0 = [] \<and>
   fst (Sign stub_env ''9c'' (stub_opts\<lparr>Armor := True\<rparr>) world0) = Return None \<and>
   fst (Sign stub_env ''9c'' (stub_opts\<lparr>Armor := False\<rparr>) world0) = Return None \<and>
   stdout (snd (Sign stub_env ''9c'' (stub_opts\<lparr>Armor := False\<rparr>) world0)) = ''CMS'' \<and>
   stub_unwrap ''SIGNED MESSAGE''
       (stdout (snd (Sign stub_env ''9c'' (stub_opts\<lparr>Armor := True\<rparr>) world0))) =
     Some (stdout (snd (Sign stub_env ''9c'' (stub_opts\<lparr>Armor := False\<rparr>) world0)))"
proof -
  have u: "stub_unwrap ''SIGNED MESSAGE'' (pem_EncodeToMemory stub_env
             \<lparr>Type = ''SIGNED MESSAGE'', Headers = [], Bytes = der\<rparr>) = Some der" for der
    using stub_unwrap_stub_pem [of "\<lparr>Type = ''SIGNED MESSAGE'', Headers = [], Bytes = der\<rparr>"]
    by (simp add: stub_env_def)
  have e: "stdout world0 = []" by (simp add: world0_def)
  have r: "stub_opts\<lparr>Armor := False\<rparr> = stub_opts" by (simp add: stub_opts_def)
  have a: "Sign stub_env ''9c'' (stub_opts\<lparr>Armor := True\<rparr>) world0 =
             (Return None, snd (Sign stub_env ''9c'' (stub_opts\<lparr>Armor := True\<rparr>) world0))"
    by (simp add: stub_run_armor)
  have b: "Sign stub_env ''9c'' (stub_opts\<lparr>Armor := False\<rparr>) world0 =
             (Return None, snd (Sign stub_env ''9c'' (stub_opts\<lparr>Armor := False\<rparr>) world0))"
    by (simp add: r stub_run_stdin)
  from Sign_armor_unwraps_to_raw [of "stub_unwrap ''SIGNED MESSAGE''" stub_env, OF u e a b]
  show ?thesis using e by (simp add: r stub_run_stdin stub_run_armor)
qed

text \<open>
  Claim C9: when the CMS signing step fails, no status event is emitted, neither
  BeginSigning nor SigCreated.

  The run reaches \<open>sd.Sign\<close>, which returns an error: Sign returns it wrapped as
  "sign message" and the status channel holds what it held before.
\<close>

theorem Sign_sign_failure_emits_nothing:
  assumes "GetSigner env slot = Inr yk"
    and "Certificate env yk (GetSlot env slot) = Inr cert"
    and "certificateContainsUserId (CertHexFingerprint env) cert (UserId opts) = Return None"
    and "length (FileArgs opts) = 1 \<longrightarrow> os_Open env (FileArgs opts ! 0) = None"
    and "io_Copy env (if length (FileArgs opts) = 1 then File (FileArgs opts ! 0) else os_Stdin)
           = Inr dataBuf"
    and "NewSignedData env dataBuf = Inr sd"
    and "sd_Sign env sd [cert] (NewYubikeySigner env yk (GetSlot env slot)) = Inl err"
  shows "fst (Sign env slot opts w) = Return (Some (errors_Wrap err ''sign message'')) \<and>
         status (snd (Sign env slot opts w)) = status w"
  using assms by (cases "length (FileArgs opts) = 1") (simp_all add: Sign_def Sign_message_def)

theorem Sign_sign_failure_emits_nothing_witness:
  "sd_Sign stub_env_card_removed (''hello'', False) [stub_cert] () =
     Inl (External ''card removed'') \<and>
   fst (Sign stub_env_card_removed ''9c'' stub_opts world0) =
     Return (Some (errors_Wrap (External ''card removed'') ''sign message'')) \<and>
   status (snd (Sign stub_env_card_removed ''9c'' stub_opts world0)) = []"
proof -
  let ?env = stub_env_card_removed
  have h1: "GetSigner ?env ''9c'' = Inr ()"
    and h2: "Certificate ?env () (GetSlot ?env ''9c'') = Inr stub_cert"
    and h4: "length (FileArgs stub_opts) = 1 \<longrightarrow> os_Open ?env (FileArgs stub_opts ! 0) = None"
    and h5: "io_Copy ?env (if length (FileArgs stub_opts) = 1
               then File (FileArgs stub_opts ! 0) else os_Stdin) = Inr ''hello''"
    and h6: "NewSignedData ?env ''hello'' = Inr (''hello'', False)"
    and h7: "sd_Sign ?env (''hello'', False) [stub_cert]
               (NewYubikeySigner ?env () (GetSlot ?env ''9c'')) = Inl (External ''card removed'')"
    by (simp_all add: stub_env_card_removed_def stub_env_def stub_opts_def)
  have h3: "certificateContainsUserId (CertHexFingerprint ?env) stub_cert (UserId stub_opts)
              = Return None"
    by (simp add: stub_opts_def stub_identity_alice)
  from Sign_sign_failure_emits_nothing [OF h1 h2 h3 h4 h5 h6 h7, of world0] h7
  show ?thesis by (simp add: world0_def)
qed

text \<open>
  Claim C10: with a FileArgs list of length other than one (no file, or two or more), the
  input is read from standard input and no file is opened; only a list of length exactly one
  makes Sign open and read the named file.

  Once the identity is validated, \<open>f\<close> is the reader the claim names: the file of the single
  argument, standard input otherwise. The files Sign touches are the open of that file and,
  if it succeeds, its read and its close, or else the read of standard input alone. What
  any other reader would return makes no difference to the run. A failed open, and a failed
  read of \<open>f\<close>, are what Sign returns; the bytes read from \<open>f\<close> are the ones given to
  \<open>NewSignedData\<close>, the structure built from them is the one signed, and when the later steps
  succeed its serialization is what standard output receives.
\<close>

theorem Sign_input_source:
  fixes env :: "('yk, 'slot, 'signer, 'sd) env"
  assumes "GetSigner env slot = Inr yk"
    and "Certificate env yk (GetSlot env slot) = Inr cert"
    and "certificateContainsUserId (CertHexFingerprint env) cert (UserId opts) = Return None"
    and "f = (if length (FileArgs opts) = 1 then File (FileArgs opts ! 0) else os_Stdin)"
    and "sg = NewYubikeySigner env yk (GetSlot env slot)"
  shows
    "io_log (snd (Sign env slot opts w)) = io_log w @
       (if length (FileArgs opts) = 1
        then (case os_Open env (FileArgs opts ! 0) of
                Some err \<Rightarrow> [Open (FileArgs opts ! 0)]
              | None \<Rightarrow> [Open (FileArgs opts ! 0), Copy (File (FileArgs opts ! 0)),
                         Close (FileArgs opts ! 0)])
        else [Copy os_Stdin]) \<and>
     (\<forall>rd. rd f = io_Copy env f \<longrightarrow>
        Sign (env\<lparr>io_Copy := rd\<rparr>) slot opts w = Sign env slot opts w) \<and>
     (\<forall>err. length (FileArgs opts) = 1 \<longrightarrow> os_Open env (FileArgs opts ! 0) = Some err \<longrightarrow>
        fst (Sign env slot opts w) =
          Return (Some (errors_Wrap err (''open message file ('' @ FileArgs opts ! 0 @ '')'')))) \<and>
     ((length (FileArgs opts) = 1 \<longrightarrow> os_Open env (FileArgs opts ! 0) = None) \<longrightarrow>
        (\<forall>err. io_Copy env f = Inl err \<longrightarrow>
           fst (Sign env slot opts w) =
             Return (Some (errors_Wrap err ''read message to sign''))) \<and>
        (\<forall>dataBuf err. io_Copy env f = Inr dataBuf \<longrightarrow> NewSignedData env dataBuf = Inl err \<longrightarrow>
           fst (Sign env slot opts w) =
             Return (Some (errors_Wrap err ''create signed data''))) \<and>
        (\<forall>dataBuf sd0 err. io_Copy env f = Inr dataBuf \<longrightarrow> NewSignedData env dataBuf = Inr sd0 \<longrightarrow>
           sd_Sign env sd0 [cert] sg = Inl err \<longrightarrow>
           fst (Sign env slot opts w) = Return (Some (errors_Wrap err ''sign message''))) \<and>
        (\<forall>dataBuf sd0 sd1 sd3 sd4 der.
           io_Copy env f = Inr dataBuf \<longrightarrow> NewSignedData env dataBuf = Inr sd0 \<longrightarrow>
           sd_Sign env sd0 [cert] sg = Inr sd1 \<longrightarrow>
           (if length (TimestampAuthority opts) > 0
            then sd_AddTimestamps env (if Detach opts then sd_Detached env sd1 else sd1)
                   (TimestampAuthority opts)
            else Inr (if Detach opts then sd_Detached env sd1 else sd1)) = Inr sd3 \<longrightarrow>
           sd_SetCertificates env sd3 [cert] = Inr sd4 \<longrightarrow> sd_ToDER env sd4 = Inr der \<longrightarrow>
           Stdout_capacity env = None \<longrightarrow>
           fst (Sign env slot opts w) = Return None \<and>
           stdout (snd (Sign env slot opts w)) = stdout w @
             (if Armor opts
              then pem_EncodeToMemory env
                     \<lparr>Type = ''SIGNED MESSAGE'', Headers = [], Bytes = der\<rparr>
              else der)))"
proof (intro conjI allI impI)
  show "io_log (snd (Sign env slot opts w)) = io_log w @
       (if length (FileArgs opts) = 1
        then (case os_Open env (FileArgs opts ! 0) of
                Some err \<Rightarrow> [Open (FileArgs opts ! 0)]
              | None \<Rightarrow> [Open (FileArgs opts ! 0), Copy (File (FileArgs opts ! 0)),
                         Close (FileArgs opts ! 0)])
        else [Copy os_Stdin])"
    using assms(1-3)
    by (cases rule: Sign_paths [of env slot opts w]) (simp_all add: Sign_message_io_log)
next
  fix rd assume rd: "rd f = io_Copy env f"
  have m: "Sign_message (env\<lparr>io_Copy := rd\<rparr>) opts cert sg f w' =
           Sign_message env opts cert sg f w'" for w'
    using rd
    by (simp add: Sign_message_def pem_Encode_def Stdout_Write_def Let_def split_beta
        cong: sum.case_cong if_cong)
  show "Sign (env\<lparr>io_Copy := rd\<rparr>) slot opts w = Sign env slot opts w"
    using assms m
    by (cases "length (FileArgs opts) = 1")
       (simp_all add: Sign_def Let_def cong: option.case_cong)
next
  fix err assume "length (FileArgs opts) = 1" "os_Open env (FileArgs opts ! 0) = Some err"
  then show "fst (Sign env slot opts w) =
          Return (Some (errors_Wrap err (''open message file ('' @ FileArgs opts ! 0 @ '')'')))"
    using assms by (simp add: Sign_def)
next
  fix err
  assume "length (FileArgs opts) = 1 \<longrightarrow> os_Open env (FileArgs opts ! 0) = None"
    "io_Copy env f = Inl err"
  then show "fst (Sign env slot opts w) =
             Return (Some (errors_Wrap err ''read message to sign''))"
    using assms
    by (cases "length (FileArgs opts) = 1") (simp_all add: Sign_def Sign_message_def)
next
  fix dataBuf err
  assume "length (FileArgs opts) = 1 \<longrightarrow> os_Open env (FileArgs opts ! 0) = None"
    "io_Copy env f = Inr dataBuf" "NewSignedData env dataBuf = Inl err"
  then show "fst (Sign env slot opts w) =
             Return (Some (errors_Wrap err ''create signed data''))"
    using assms
    by (cases "length (FileArgs opts) = 1") (simp_all add: Sign_def Sign_message_def)
next
  fix dataBuf sd0 err
  assume "length (FileArgs opts) = 1 \<longrightarrow> os_Open env (FileArgs opts ! 0) = None"
    "io_Copy env f = Inr dataBuf" "NewSignedData env dataBuf = Inr sd0"
    "sd_Sign env sd0 [cert] sg = Inl err"
  then show "fst (Sign env slot opts w) = Return (Some (errors_Wrap err ''sign message''))"
    using assms
    by (cases "length (FileArgs opts) = 1") (simp_all add: Sign_def Sign_message_def)
next
  fix dataBuf sd0 sd1 sd3 sd4 der
  assume p: "length (FileArgs opts) = 1 \<longrightarrow> os_Open env (FileArgs opts ! 0) = None"
    "io_Copy env f = Inr dataBuf" "NewSignedData env dataBuf = Inr sd0"
    "sd_Sign env sd0 [cert] sg = Inr sd1"
    "(if length (TimestampAuthority opts) > 0
            then sd_AddTimestamps env (if Detach opts then sd_Detached env sd1 else sd1)
                   (TimestampAuthority opts)
            else Inr (if Detach opts then sd_Detached env sd1 else sd1)) = Inr sd3"
    "sd_SetCertificates env sd3 [cert] = Inr sd4" "sd_ToDER env sd4 = Inr der"
    "Stdout_capacity env = None"
  have m: "Sign_message env opts cert sg f w' =
             (Return None,
              (EmitSigCreated cert (Detach opts) (EmitBeginSigning (log_io (Copy f) w')))
                \<lparr>stdout := stdout w' @
                   (if Armor opts
                    then pem_EncodeToMemory env
                           \<lparr>Type = ''SIGNED MESSAGE'', Headers = [], Bytes = der\<rparr>
                    else der)\<rparr>)" for w'
    using p(2-8)
    by (auto simp: Sign_message_def pem_Encode_def Stdout_Write_def Let_def split: if_splits)
  define w1 where "w1 = (if length (FileArgs opts) = 1
      then log_io (Open (FileArgs opts ! 0)) (SetupStatus (StatusFd opts) w)
      else SetupStatus (StatusFd opts) w)"
  have S: "fst (Sign env slot opts w) = fst (Sign_message env opts cert sg f w1) \<and>
           stdout (snd (Sign env slot opts w)) = stdout (snd (Sign_message env opts cert sg f w1))"
    using assms p(1) unfolding w1_def
    by (cases "length (FileArgs opts) = 1") (simp_all add: Sign_def Let_def split_beta)
  have w1: "stdout w1 = stdout w" by (simp add: w1_def)
  show "fst (Sign env slot opts w) = Return None"
    using S by (simp add: m)
  show "stdout (snd (Sign env slot opts w)) = stdout w @
             (if Armor opts
              then pem_EncodeToMemory env
                     \<lparr>Type = ''SIGNED MESSAGE'', Headers = [], Bytes = der\<rparr>
              else der)"
    using S w1 by (simp add: m)
qed

theorem Sign_input_source_witness:
  "stdout (snd (Sign stub_env ''9c''
      (stub_opts\<lparr>Detach := False, FileArgs := []\<rparr>) world0)) = ''CMS:hello'' \<and>
   stdout (snd (Sign stub_env ''9c''
      (stub_opts\<lparr>Detach := False, FileArgs := [''a.txt'', ''b.txt'']\<rparr>) world0)) = ''CMS:hello'' \<and>
   stdout (snd (Sign stub_env ''9c''
      (stub_opts\<lparr>Detach := False, FileArgs := [''msg.txt'']\<rparr>) world0)) = ''CMS:from file'' \<and>
   io_log (snd (Sign stub_env ''9c''
      (stub_opts\<lparr>Detach := False, FileArgs := []\<rparr>) world0)) = [Copy os_Stdin] \<and>
   io_log (snd (Sign stub_env ''9c''
      (stub_opts\<lparr>Detach := False, FileArgs := [''a.txt'', ''b.txt'']\<rparr>) world0)) =
     [Copy os_Stdin] \<and>
   io_log (snd (Sign stub_env ''9c''
      (stub_opts\<lparr>Detach := False, FileArgs := [''msg.txt'']\<rparr>) world0)) =
     [Open ''msg.txt'', Copy (File ''msg.txt''), Close ''msg.txt''] \<and>
   Sign (stub_env\<lparr>io_Copy := (\<lambda>r. case r of os_Stdin \<Rightarrow> Inl (External ''stdin closed'')
                                      | File path \<Rightarrow> Inr ''from file'')\<rparr>) ''9c''
      (stub_opts\<lparr>Detach := False, FileArgs := [''msg.txt'']\<rparr>) world0 =
   Sign stub_env ''9c'' (stub_opts\<lparr>Detach := False, FileArgs := [''msg.txt'']\<rparr>) world0"
proof -
  let ?none = "stub_opts\<lparr>Detach := False, FileArgs := []\<rparr>"
  let ?two = "stub_opts\<lparr>Detach := False, FileArgs := [''a.txt'', ''b.txt'']\<rparr>"
  let ?one = "stub_opts\<lparr>Detach := False, FileArgs := [''msg.txt'']\<rparr>"
  let ?rd = "\<lambda>r. case r of os_Stdin \<Rightarrow> Inl (External ''stdin closed'')
                        | File path \<Rightarrow> Inr ''from file''"
  have h1: "GetSigner stub_env ''9c'' = Inr ()"
    and h2: "Certificate stub_env () (GetSlot stub_env ''9c'') = Inr stub_cert"
    and sg: "() = NewYubikeySigner stub_env () (GetSlot stub_env ''9c'')"
    by (simp_all add: stub_env_def)
  have h3: "certificateContainsUserId (CertHexFingerprint stub_env) stub_cert
              (UserId (stub_opts\<lparr>Detach := False, FileArgs := fs\<rparr>)) = Return None" for fs
    by (simp add: stub_opts_def stub_identity_alice)
  have f_none: "os_Stdin = (if length (FileArgs ?none) = 1 then File (FileArgs ?none ! 0)
                            else os_Stdin)"
    and f_two: "os_Stdin = (if length (FileArgs ?two) = 1 then File (FileArgs ?two ! 0)
                            else os_Stdin)"
    and f_one: "File ''msg.txt'' = (if length (FileArgs ?one) = 1 then File (FileArgs ?one ! 0)
                            else os_Stdin)"
    by simp_all
  have o_none: "length (FileArgs ?none) = 1 \<longrightarrow> os_Open stub_env (FileArgs ?none ! 0) = None"
    and o_two: "length (FileArgs ?two) = 1 \<longrightarrow> os_Open stub_env (FileArgs ?two ! 0) = None"
    and o_one: "length (FileArgs ?one) = 1 \<longrightarrow> os_Open stub_env (FileArgs ?one ! 0) = None"
    by (simp_all add: stub_env_def)
  have c_stdin: "io_Copy stub_env os_Stdin = Inr ''hello''"
    and c_file: "io_Copy stub_env (File ''msg.txt'') = Inr ''from file''"
    and c_new: "NewSignedData stub_env d = Inr (d, False)"
    and c_sign: "sd_Sign stub_env (d, False) [stub_cert] () = Inr (d, False)"
    and c_certs: "sd_SetCertificates stub_env (d, False) [stub_cert] = Inr (d, False)"
    and c_der: "sd_ToDER stub_env (d, False) = Inr (''CMS:'' @ d)"
    and c_room: "Stdout_capacity stub_env = None" for d
    by (simp_all add: stub_env_def)
  have c_ts: "(if length (TimestampAuthority (stub_opts\<lparr>Detach := False, FileArgs := fs\<rparr>)) > 0
        then sd_AddTimestamps stub_env
               (if Detach (stub_opts\<lparr>Detach := False, FileArgs := fs\<rparr>)
                then sd_Detached stub_env (d, False) else (d, False))
               (TimestampAuthority (stub_opts\<lparr>Detach := False, FileArgs := fs\<rparr>))
        else Inr (if Detach (stub_opts\<lparr>Detach := False, FileArgs := fs\<rparr>)
                  then sd_Detached stub_env (d, False) else (d, False))) = Inr (d, False)" for fs d
    by (simp add: stub_opts_def)
  note none = Sign_input_source [OF h1 h2 h3 f_none sg, of world0]
  note two = Sign_input_source [OF h1 h2 h3 f_two sg, of world0]
  note one = Sign_input_source [OF h1 h2 h3 f_one sg, of world0]
  note out_none = none [THEN conjunct2, THEN conjunct2, THEN conjunct2, THEN mp, OF o_none,
      THEN conjunct2, THEN conjunct2, THEN conjunct2, rule_format,
      OF c_stdin c_new c_sign c_ts c_certs c_der c_room]
  note out_two = two [THEN conjunct2, THEN conjunct2, THEN conjunct2, THEN mp, OF o_two,
      THEN conjunct2, THEN conjunct2, THEN conjunct2, rule_format,
      OF c_stdin c_new c_sign c_ts c_certs c_der c_room]
  note out_one = one [THEN conjunct2, THEN conjunct2, THEN conjunct2, THEN mp, OF o_one,
      THEN conjunct2, THEN conjunct2, THEN conjunct2, rule_format,
      OF c_file c_new c_sign c_ts c_certs c_der c_room]
  have rd: "?rd (File ''msg.txt'') = io_Copy stub_env (File ''msg.txt'')"
    by (simp add: stub_env_def)
  note same = one [THEN conjunct2, THEN conjunct1, THEN spec, of ?rd, THEN mp, OF rd]
  have a: "Armor (stub_opts\<lparr>Detach := False, FileArgs := fs\<rparr>) = False" for fs
    by (simp add: stub_opts_def)
  have o: "os_Open stub_env ''msg.txt'' = None" by (simp add: stub_env_def)
  show ?thesis
    using out_none out_two out_one same
      none [THEN conjunct1] two [THEN conjunct1] one [THEN conjunct1]
    by (simp add: a o world0_def)
qed

end
